theory Spec2Isabelle
  imports Complex_Main "HOL-Library.Word"
begin

section \<open>Data model of FeatureManager\<close>

text \<open>
  The interfaces of the source become records. Field names that several interfaces
  share (\<open>id\<close>, \<open>description\<close>, \<open>value\<close>, \<open>rollout\<close>) or that clash with a constant or
  a keyword carry the interface as a prefix. A feature value has the source type
  \<open>any\<close> and is never inspected by the engine: it is the type parameter \<open>'v\<close>.
  An optional field (\<open>rollout?: Rollout | null\<close>) is an \<open>option\<close>.
\<close>

record 'v Rollout =
  percentage :: real
  secondaryValue :: 'v

text \<open>
  The configuration is a parsed JSON document, so at run time nothing enforces the
  declared type \<open>{ [key: string]: string[] }\<close> of a segment's \<open>combo\<close>. The model keeps
  that field dynamically typed: \<open>None\<close> is an absent (\<open>undefined\<close> or \<open>null\<close>) combo,
  \<open>Some entries\<close> is an object whose \<open>Object.entries\<close> are \<open>entries\<close>, in that order, and
  each key is mapped to an arbitrary JSON value.
\<close>

datatype json =
    JNull
  | JBool bool
  | JNum real
  | JStr string
  | JArr "json list"
  | JObj "(string \<times> json) list"

type_synonym combo = "(string \<times> json) list option"

record 'v Segment =
  combo :: combo
  seg_value :: 'v
  seg_rollout :: "'v Rollout option"

record 'v Feature =
  feat_id :: string
  feat_description :: string
  feat_type :: string
  feat_value :: 'v
  segments :: "'v Segment list"
  feat_rollout :: "'v Rollout option"

record 'v FeatureGroup =
  group_id :: string
  group_description :: string
  features :: "'v Feature list"

record 'v FeatureConfig =
  groups :: "'v FeatureGroup list"

text \<open>
  \<open>UserAttributes\<close> is an object used as a dictionary from strings to strings: the model
  holds its own properties. The callers build it as a plain object (\<open>{}\<close>, then one
  assignment per attribute), so a lookup \<open>userAttributes[key]\<close> that finds no own property
  goes on to the members that every plain object inherits (see \<open>getProperty\<close> below).
\<close>

type_synonym UserAttributes = "string \<rightharpoonup> string"

record 'v FeatureEvaluationResult =
  result_value :: 'v
  reasoning :: "string list"

text \<open>
  What the engine takes from its platform and its one dependency: the hash of the
  \<open>murmurhash\<close> package (an unsigned 32-bit number), the conversion of a value and of a
  number inside a template literal, and \<open>JSON.stringify\<close> on a combo. None of them is code
  of the repository; the engine is parameterised by them.
\<close>

record 'v runtime =
  murmurhash_v3 :: "string \<Rightarrow> 32 word"
  toString :: "'v \<Rightarrow> string"
  numberToString :: "real \<Rightarrow> string"
  JSON_stringify :: "combo \<Rightarrow> string"

text \<open>
  Errors: the \<open>Error\<close> that \<open>getFeatureValue\<close> throws, with its message, and the
  \<open>TypeError\<close> that the language raises on a value of the wrong shape.
\<close>

datatype error = Error string | TypeError

record 'v FeatureManager =
  featureMap :: "string \<rightharpoonup> ('v Feature \<times> string)"
  userId :: string
  userAttributes :: UserAttributes

section \<open>The constructor\<close>

text \<open>
  The two nested loops of the constructor: every feature of every group is stored under
  its id, together with the id of its group; \<open>Map.set\<close> overwrites an earlier entry.
\<close>

definition indexFeatures ::
  "'v FeatureGroup \<Rightarrow> (string \<rightharpoonup> ('v Feature \<times> string)) \<Rightarrow> (string \<rightharpoonup> ('v Feature \<times> string))" where
  "indexFeatures grp m =
     fold (\<lambda>feature m'. m'(feat_id feature \<mapsto> (feature, group_id grp))) (features grp) m"

definition newFeatureManager ::
  "'v FeatureConfig \<Rightarrow> string \<Rightarrow> UserAttributes \<Rightarrow> 'v FeatureManager" where
  "newFeatureManager config uid attrs =
     \<lparr> featureMap = fold indexFeatures (groups config) Map.empty,
       userId = uid,
       userAttributes = attrs \<rparr>"

definition setUserId :: "'v FeatureManager \<Rightarrow> string \<Rightarrow> 'v FeatureManager" where
  "setUserId this uid = this\<lparr> userId := uid \<rparr>"

section \<open>The rollout bucketer\<close>

definition hashUser :: "'v runtime \<Rightarrow> string \<Rightarrow> string \<Rightarrow> int" where
  "hashUser rt uid gid =
     (let str = uid @ ''-'' @ gid;
          hash = uint (murmurhash_v3 rt str)
      in \<bar>hash\<bar> mod 100)"

definition evaluateRollout ::
  "'v runtime \<Rightarrow> string \<Rightarrow> string \<Rightarrow> 'v Rollout \<Rightarrow> 'v \<Rightarrow> string list \<Rightarrow> 'v \<times> string list" where
  "evaluateRollout rt uid gid rollout currentValue rs =
     (let hash = hashUser rt uid gid;
          pct = percentage rollout;
          rs1 = rs @ [''Evaluating rollout: Hash('' @ uid @ '', '' @ gid @ '') = ''
                       @ numberToString rt (of_int hash) @ '', Rollout percentage = ''
                       @ numberToString rt pct @ ''%'']
      in if of_int hash < pct
         then (currentValue,
               rs1 @ [''User falls within rollout percentage. Using value: ''
                       @ toString rt currentValue])
         else (secondaryValue rollout,
               rs1 @ [''User does not fall within rollout percentage. Using secondary value: ''
                       @ toString rt (secondaryValue rollout)]))"

section \<open>The segment matcher\<close>

definition startsWith :: "string \<Rightarrow> string \<Rightarrow> bool" where
  "startsWith s p = (take (length p) s = p)"

definition slice :: "string \<Rightarrow> nat \<Rightarrow> string" where
  "slice s n = drop n s"

text \<open>
  What \<open>for (const value of values)\<close> runs through: the elements of an array, the
  characters of a string (each a string of length one); any other JSON value is not
  iterable, and the loop raises a \<open>TypeError\<close>.
\<close>

fun iterate :: "json \<Rightarrow> error + json list" where
  "iterate (JArr xs) = Inr xs"
| "iterate (JStr s) = Inr (map (\<lambda>c. JStr [c]) s)"
| "iterate _ = Inl TypeError"

text \<open>
  What \<open>userAttributes[attributeKey]\<close> evaluates to: \<open>undefined\<close>, a string (an own
  property), or a member inherited from \<open>Object.prototype\<close>. An inherited member is a
  function (an object for \<open>__proto__\<close>): it is truthy and equal to no string.
\<close>

datatype property = Undefined | Str string | Inherited

definition objectPrototypeKeys :: "string list" where
  "objectPrototypeKeys =
     [''constructor'', ''__defineGetter__'', ''__defineSetter__'', ''hasOwnProperty'',
      ''__lookupGetter__'', ''__lookupSetter__'', ''isPrototypeOf'', ''propertyIsEnumerable'',
      ''toString'', ''valueOf'', ''__proto__'', ''toLocaleString'']"

definition getProperty :: "UserAttributes \<Rightarrow> string \<Rightarrow> property" where
  "getProperty attrs attributeKey =
     (case attrs attributeKey of
        Some s \<Rightarrow> Str s
      | None \<Rightarrow> if attributeKey \<in> set objectPrototypeKeys then Inherited else Undefined)"

text \<open>\<open>!userValue\<close>: true of \<open>undefined\<close> and of the empty string.\<close>

fun falsy :: "property \<Rightarrow> bool" where
  "falsy Undefined = True"
| "falsy (Str s) = (s = [])"
| "falsy Inherited = False"

text \<open>
  The inner loop over the tokens of one attribute key. It ends in one of three ways:
  all tokens are read and \<open>matchFound\<close> has its final value; a negated token equals the
  user's value, and \<open>matchSegment\<close> returns \<open>false\<close> from inside the loop; or a
  token is not a string, so that \<open>value.startsWith\<close> is not a function. The comparisons
  \<open>!==\<close> and \<open>===\<close> are strict: the user's value equals a token only when it is that
  very string.
\<close>

datatype scan = Scanned bool | Violated string

fun scanValues :: "property \<Rightarrow> json list \<Rightarrow> bool \<Rightarrow> error + scan" where
  "scanValues userValue [] matchFound = Inr (Scanned matchFound)"
| "scanValues userValue (JStr v # vs) matchFound =
     (if startsWith v ''!'' then
        (let negatedValue = slice v 1
         in if userValue \<noteq> Str negatedValue then scanValues userValue vs True
            else Inr (Violated negatedValue))
      else if userValue = Str v then scanValues userValue vs True
      else scanValues userValue vs matchFound)"
| "scanValues userValue (_ # vs) matchFound = Inl TypeError"

definition msgNotPresent :: "string \<Rightarrow> string" where
  \<open>msgNotPresent attributeKey =
     ''User attribute "'' @ attributeKey @ ''" not present. Segment does not match.''\<close>

definition msgNegated :: "string \<Rightarrow> string \<Rightarrow> string \<Rightarrow> string" where
  \<open>msgNegated attributeKey userValue negatedValue =
     ''User attribute "'' @ attributeKey @ ''" value "'' @ userValue
       @ ''" matches negated value "'' @ negatedValue @ ''". Segment does not match.''\<close>

definition msgNoMatching :: "string \<Rightarrow> string" where
  \<open>msgNoMatching attributeKey =
     ''No matching value for attribute "'' @ attributeKey @ ''". Segment does not match.''\<close>

text \<open>
  The outer loop over \<open>Object.entries(combo)\<close>. The entry for a violated negation prints
  \<open>userValue\<close> and \<open>negatedValue\<close>; it is pushed in the branch where the two are strictly
  equal, so \<open>userValue\<close> is there the string \<open>negatedValue\<close> (lemma \<open>scanValues_Violated\<close>).
\<close>

fun matchEntries ::
  "(string \<times> json) list \<Rightarrow> UserAttributes \<Rightarrow> string list \<Rightarrow> error + (bool \<times> string list)" where
  "matchEntries [] attrs rs = Inr (True, rs)"
| "matchEntries ((attributeKey, values) # rest) attrs rs =
     (let userValue = getProperty attrs attributeKey
      in if falsy userValue then Inr (False, rs @ [msgNotPresent attributeKey])
         else (case iterate values of
                 Inl e \<Rightarrow> Inl e
               | Inr vs \<Rightarrow>
                   (case scanValues userValue vs False of
                      Inl e \<Rightarrow> Inl e
                    | Inr (Violated negatedValue) \<Rightarrow>
                        Inr (False, rs @ [msgNegated attributeKey negatedValue negatedValue])
                    | Inr (Scanned matchFound) \<Rightarrow>
                        if \<not> matchFound
                        then Inr (False, rs @ [msgNoMatching attributeKey])
                        else matchEntries rest attrs rs)))"

definition matchSegment ::
  "combo \<Rightarrow> UserAttributes \<Rightarrow> string list \<Rightarrow> error + (bool \<times> string list)" where
  "matchSegment c attrs rs =
     (case c of
        None \<Rightarrow> Inl TypeError
      | Some entries \<Rightarrow> matchEntries entries attrs rs)"

section \<open>The evaluation orchestrator\<close>

text \<open>
  The loop of \<open>getFeatureValue\<close> over the segments of the feature either returns a
  result from inside the loop (at the first segment that matches), or falls through with
  the trace collected so far. An error of \<open>matchSegment\<close> leaves the loop and the method.
\<close>

datatype 'v loop = Returned "'v FeatureEvaluationResult" | Fallthrough "string list"

fun segmentLoop ::
  "'v runtime \<Rightarrow> 'v FeatureManager \<Rightarrow> string \<Rightarrow> 'v Segment list \<Rightarrow> string list
     \<Rightarrow> error + 'v loop" where
  "segmentLoop rt this gid [] rs = Inr (Fallthrough rs)"
| "segmentLoop rt this gid (segment # rest) rs =
     (case matchSegment (combo segment) (userAttributes this) rs of
        Inl e \<Rightarrow> Inl e
      | Inr (matched, rs1) \<Rightarrow>
          if matched then
            (let rs2 = rs1 @ [''Segment matched: '' @ JSON_stringify rt (combo segment)];
                 finalValue = seg_value segment
             in case seg_rollout segment of
                  Some rollout \<Rightarrow>
                    (let beforeRolloutValue = finalValue;
                         (finalValue', rs3) =
                            evaluateRollout rt (userId this) gid rollout finalValue rs2;
                         rs4 = rs3 @ [''Segment-level rollout applied: ''
                                 @ numberToString rt (percentage rollout) @ ''% users get ''
                                 @ toString rt beforeRolloutValue @ '', others get ''
                                 @ toString rt (secondaryValue rollout)]
                     in Inr (Returned
                          \<lparr> result_value = finalValue',
                            reasoning = rs4 @ [''Final value from segment: ''
                                                @ toString rt finalValue'] \<rparr>))
                | None \<Rightarrow>
                    (let rs3 = rs2 @ [''No segment-level rollout applied.'']
                     in Inr (Returned
                          \<lparr> result_value = finalValue,
                            reasoning = rs3 @ [''Final value from segment: ''
                                                @ toString rt finalValue] \<rparr>)))
          else segmentLoop rt this gid rest
                 (rs1 @ [''Segment did not match: '' @ JSON_stringify rt (combo segment)]))"

text \<open>
  The body of \<open>getFeatureValue\<close> once the entry \<open>{ feature, groupId }\<close> is found: the loop,
  then the default value and the feature-level rollout.
\<close>

definition evaluateEntry ::
  "'v runtime \<Rightarrow> 'v FeatureManager \<Rightarrow> 'v Feature \<Rightarrow> string
     \<Rightarrow> error + 'v FeatureEvaluationResult" where
  "evaluateEntry rt this feature gid =
     (case segmentLoop rt this gid (segments feature) [] of
        Inl e \<Rightarrow> Inl e
      | Inr (Returned res) \<Rightarrow> Inr res
      | Inr (Fallthrough rs) \<Rightarrow>
          (let rs1 = rs @ [''No segments matched. Using default value.''];
               finalValue = feat_value feature
           in case feat_rollout feature of
                Some rollout \<Rightarrow>
                  (let beforeRolloutValue = finalValue;
                       (finalValue', rs2) =
                          evaluateRollout rt (userId this) gid rollout finalValue rs1;
                       rs3 = rs2 @ [''Feature-level rollout applied: ''
                               @ numberToString rt (percentage rollout) @ ''% users get ''
                               @ toString rt beforeRolloutValue @ '', others get ''
                               @ toString rt (secondaryValue rollout)]
                   in Inr \<lparr> result_value = finalValue',
                            reasoning = rs3 @ [''Final value: '' @ toString rt finalValue'] \<rparr>)
              | None \<Rightarrow>
                  (let rs2 = rs1 @ [''No feature-level rollout applied.'']
                   in Inr \<lparr> result_value = finalValue,
                            reasoning = rs2 @ [''Final value: '' @ toString rt finalValue] \<rparr>)))"

definition msgNotFound :: "string \<Rightarrow> string" where
  \<open>msgNotFound featureId = ''Feature with id "'' @ featureId @ ''" not found.''\<close>

definition getFeatureValue ::
  "'v runtime \<Rightarrow> 'v FeatureManager \<Rightarrow> string \<Rightarrow> error + 'v FeatureEvaluationResult" where
  "getFeatureValue rt this featureId =
     (case featureMap this featureId of
        None \<Rightarrow> Inl (Error (msgNotFound featureId))
      | Some (feature, gid) \<Rightarrow> evaluateEntry rt this feature gid)"

section \<open>The configuration in document order\<close>

text \<open>
  The features of a configuration in the order in which the constructor visits them,
  each with the id of the group that owns it, and the single step \<open>Map.set\<close> of the
  constructor. Both serve to state and prove what the index holds.
\<close>

definition configEntries :: "'v FeatureConfig \<Rightarrow> ('v Feature \<times> string) list" where
  "configEntries config =
     concat (map (\<lambda>grp. map (\<lambda>feature. (feature, group_id grp)) (features grp)) (groups config))"

definition store ::
  "'v Feature \<times> string \<Rightarrow> (string \<rightharpoonup> ('v Feature \<times> string)) \<Rightarrow> (string \<rightharpoonup> ('v Feature \<times> string))" where
  "store e m = m(feat_id (fst e) \<mapsto> e)"

text \<open>
  A combo as its declared type has it: every key is mapped to a list of strings.
\<close>

definition typedCombo :: "(string \<times> string list) list \<Rightarrow> combo" where
  "typedCombo entries = Some (map (\<lambda>(k, tokens). (k, JArr (map JStr tokens))) entries)"

section \<open>Sample data\<close>

text \<open>
  A runtime to run the model on concrete inputs: feature values are strings, the hash of
  a key is its length, and the renderings of numbers and combos are fixed strings.
\<close>

definition sampleRuntime :: "string runtime" where
  "sampleRuntime =
     \<lparr> murmurhash_v3 = (\<lambda>s. of_nat (length s)),
       toString = (\<lambda>v. v),
       numberToString = (\<lambda>r. ''n''),
       JSON_stringify = (\<lambda>c. ''{}'') \<rparr>"

definition proSegment :: "string Segment" where
  "proSegment =
     \<lparr> combo = Some [(''plan'', JArr [JStr ''pro''])], seg_value = ''gold'',
       seg_rollout = Some \<lparr> percentage = 50, secondaryValue = ''silver'' \<rparr> \<rparr>"

definition notEUSegment :: "string Segment" where
  "notEUSegment =
     \<lparr> combo = Some [(''region'', JArr [JStr ''!EU''])], seg_value = ''beta'',
       seg_rollout = None \<rparr>"

definition everyoneSegment :: "string Segment" where
  "everyoneSegment = \<lparr> combo = Some [], seg_value = ''basic'', seg_rollout = None \<rparr>"

definition brokenSegment :: "string Segment" where
  "brokenSegment = \<lparr> combo = None, seg_value = ''lost'', seg_rollout = None \<rparr>"

definition plainFeature :: "string Feature" where
  "plainFeature =
     \<lparr> feat_id = ''f0'', feat_description = ''a plain toggle'', feat_type = ''boolean'',
       feat_value = ''off'', segments = [], feat_rollout = None \<rparr>"

definition tieredFeature :: "string Feature" where
  "tieredFeature =
     \<lparr> feat_id = ''f1'', feat_description = ''tiers'', feat_type = ''string'',
       feat_value = ''none'', segments = [proSegment, notEUSegment, everyoneSegment],
       feat_rollout = Some \<lparr> percentage = 10, secondaryValue = ''never'' \<rparr> \<rparr>"

text \<open>The same feature id in two groups, with two default values.\<close>

definition duplicateConfig :: "string FeatureConfig" where
  "duplicateConfig =
     \<lparr> groups =
         [\<lparr> group_id = ''g1'', group_description = ''first'',
            features = [plainFeature] \<rparr>,
          \<lparr> group_id = ''g2'', group_description = ''second'',
            features = [plainFeature\<lparr> feat_value := ''on'' \<rparr>] \<rparr>] \<rparr>"

text \<open>
  A manager that knows one feature, in group \<open>g1\<close>, for the user \<open>alice\<close>, whose plan is
  \<open>free\<close>, whose region is \<open>US\<close> and whose attribute \<open>beta\<close> is the empty string.
\<close>

definition sampleManager :: "string Feature \<Rightarrow> string FeatureManager" where
  "sampleManager feature =
     \<lparr> featureMap = [feat_id feature \<mapsto> (feature, ''g1'')],
       userId = ''alice'',
       userAttributes = [''plan'' \<mapsto> ''free'', ''region'' \<mapsto> ''US'', ''beta'' \<mapsto> []] \<rparr>"

section \<open>The trace is only ever extended\<close>

text \<open>The step of the outer loop, with the local \<open>userValue\<close> written out.\<close>

lemma matchEntries_Cons [simp]:
  "matchEntries ((attributeKey, values) # rest) attrs rs =
     (if falsy (getProperty attrs attributeKey)
      then Inr (False, rs @ [msgNotPresent attributeKey])
      else (case iterate values of
              Inl e \<Rightarrow> Inl e
            | Inr vs \<Rightarrow>
                (case scanValues (getProperty attrs attributeKey) vs False of
                   Inl e \<Rightarrow> Inl e
                 | Inr (Violated negatedValue) \<Rightarrow>
                     Inr (False, rs @ [msgNegated attributeKey negatedValue negatedValue])
                 | Inr (Scanned matchFound) \<Rightarrow>
                     if \<not> matchFound
                     then Inr (False, rs @ [msgNoMatching attributeKey])
                     else matchEntries rest attrs rs)))"
  by (simp add: Let_def)

declare matchEntries.simps(2) [simp del]

lemma matchEntries_trace:
  "matchEntries es attrs rs =
     (case matchEntries es attrs [] of
        Inl e \<Rightarrow> Inl e
      | Inr (b, tr) \<Rightarrow> Inr (b, rs @ tr))"
  by (induction es) (auto split: sum.splits scan.splits if_splits)

lemma matchSegment_trace:
  "matchSegment c attrs rs =
     (case matchSegment c attrs [] of
        Inl e \<Rightarrow> Inl e
      | Inr (b, tr) \<Rightarrow> Inr (b, rs @ tr))"
  unfolding matchSegment_def
  by (cases c) (simp_all add: matchEntries_trace [of _ attrs rs])

lemma matchEntries_True_trace:
  "matchEntries es attrs rs = Inr (True, rs') \<Longrightarrow> rs' = rs"
  by (induction es) (auto split: sum.splits scan.splits if_splits)


section \<open>Only a TypeError leaves the matcher\<close>

lemma scanValues_no_Error: "scanValues u vs mf \<noteq> Inl (Error m)"
  by (induction u vs mf rule: scanValues.induct) (auto simp: Let_def)

lemma iterate_no_Error: "iterate v \<noteq> Inl (Error m)"
  by (cases v) auto

lemma matchEntries_no_Error: "matchEntries es attrs rs \<noteq> Inl (Error m)"
  by (induction es)
     (auto simp: scanValues_no_Error iterate_no_Error
           split: sum.splits scan.splits if_splits)

lemma matchSegment_no_Error: "matchSegment c attrs rs \<noteq> Inl (Error m)"
  by (cases c) (simp_all add: matchSegment_def matchEntries_no_Error)

lemma segmentLoop_no_Error: "segmentLoop rt this gid ss rs \<noteq> Inl (Error m)"
  by (induction ss arbitrary: rs)
     (auto simp: matchSegment_no_Error Let_def
           split: sum.splits prod.splits option.splits if_splits)

lemma evaluateEntry_no_Error: "evaluateEntry rt this feature gid \<noteq> Inl (Error m)"
  by (auto simp: evaluateEntry_def segmentLoop_no_Error Let_def
           split: sum.splits loop.splits option.splits prod.splits)

section \<open>The rollout bucketer: range and thresholds\<close>



text \<open>
  C4. The bucket of \<open>hashUser\<close> is an integer between 0 and 99 for every user id and
  group id, whatever the hash of the key is, and it is a function of the two ids alone:
  two calls with the same user id and group id return the same bucket.
\<close>

theorem hashUser_bucket_range_deterministic:
  "0 \<le> hashUser rt uid gid \<and> hashUser rt uid gid \<le> 99
   \<and> (uid' = uid \<and> gid' = gid \<longrightarrow> hashUser rt uid' gid' = hashUser rt uid gid)"
  by (simp add: hashUser_def Let_def)

theorem hashUser_bucket_range_deterministic_witness:
  "0 \<le> hashUser sampleRuntime ''alice'' ''g1'' \<and> hashUser sampleRuntime ''alice'' ''g1'' \<le> 99
   \<and> hashUser sampleRuntime ''alice'' ''g1'' = 8"
  using hashUser_bucket_range_deterministic
          [of sampleRuntime "''alice''" "''g1''" "''alice''" "''g1''"]
  by (simp add: hashUser_def sampleRuntime_def)



section \<open>The segment matcher\<close>

lemma getProperty_own: "attrs k = Some s \<Longrightarrow> getProperty attrs k = Str s"
  by (simp add: getProperty_def)

lemma scanValues_Violated:
  "scanValues userValue vs mf = Inr (Violated n) \<Longrightarrow> userValue = Str n"
  by (induction userValue vs mf rule: scanValues.induct) (auto simp: Let_def split: if_splits)

text \<open>
  C1, as the code has it. For the combo that maps \<open>region\<close> to the tokens \<open>US\<close> and
  \<open>!EU\<close>, a user whose region is \<open>CA\<close> matches: the negation \<open>!EU\<close> is not violated, and
  a negation that is not violated sets \<open>matchFound\<close>. \<open>matchSegment\<close> returns true and
  adds nothing to the trace.
\<close>

theorem matchSegment_mixed_tokens_CA_matches:
  "matchSegment (Some [(''region'', JArr [JStr ''US'', JStr ''!EU''])])
     (attrs(''region'' \<mapsto> ''CA'')) rs = Inr (True, rs)"
  by (simp add: matchSegment_def getProperty_def startsWith_def slice_def)

text \<open>
  C1 as stated (the segment does not match for region \<open>CA\<close>) fails on the user whose
  only attribute is that region.
\<close>

theorem matchSegment_mixed_tokens_CA_counterexample:
  "matchSegment (Some [(''region'', JArr [JStr ''US'', JStr ''!EU''])])
     [''region'' \<mapsto> ''CA''] [] = Inr (True, [])"
  by (simp add: matchSegment_def getProperty_def startsWith_def slice_def)

subsection \<open>Attributes that are empty, absent or inherited\<close>

text \<open>
  A key that names an inherited member is never absent from a plain object: without an
  own property the lookup gives the member, which is truthy and differs from every
  string, so a negated token is satisfied. With the empty string as own value the same
  key is reported as not present.
\<close>

lemma inherited_member_counts_as_present:
  "matchSegment (Some [(''constructor'', JArr [JStr ''!x''])]) Map.empty [] = Inr (True, [])
   \<and> matchSegment (Some [(''constructor'', JArr [JStr ''!x''])]) [''constructor'' \<mapsto> []] []
     = Inr (False, [msgNotPresent ''constructor''])"
  by (simp add: matchSegment_def getProperty_def objectPrototypeKeys_def startsWith_def
        slice_def)







subsection \<open>Combos of the declared type\<close>

lemma scanValues_typed: "\<exists>r. scanValues u (map JStr tokens) mf = Inr r"
  by (induction tokens arbitrary: mf) (auto simp: Let_def)

lemma matchEntries_typed:
  "\<exists>b tr. matchEntries (map (\<lambda>(k, tokens). (k, JArr (map JStr tokens))) entries) attrs rs
     = Inr (b, rs @ tr)"
proof (induction entries)
  case Nil
  show ?case by auto
next
  case (Cons e entries)
  obtain k tokens where e: "e = (k, tokens)" by (cases e)
  show ?case
  proof (cases "falsy (getProperty attrs k)")
    case True
    with e show ?thesis by auto
  next
    case False
    obtain r where r: "scanValues (getProperty attrs k) (map JStr tokens) False = Inr r"
      using scanValues_typed by blast
    with False e Cons show ?thesis
      by (cases r) auto
  qed
qed

text \<open>
  On a combo of the declared type (every key mapped to a list of strings)
  \<open>matchSegment\<close> never raises: it returns true or false, and a trace that extends the
  one it was given.
\<close>

theorem typed_combo_never_raises:
  "\<exists>b tr. matchSegment (typedCombo entries) attrs rs = Inr (b, rs @ tr)"
  using matchEntries_typed [of entries attrs rs]
  by (simp add: matchSegment_def typedCombo_def)

text \<open>
  Negation precedence. For the token list \<open>!EU\<close>, the region \<open>EU\<close> does not match and
  the region \<open>US\<close> matches; for the token list \<open>US\<close>, \<open>!EU\<close>, the region \<open>US\<close> matches and the
  region \<open>EU\<close> does not. A violated negation adds its entry to the trace.
\<close>

theorem negation_precedence:
  "matchSegment (typedCombo [(''region'', [''!EU''])]) (attrs(''region'' \<mapsto> ''EU'')) rs
     = Inr (False, rs @ [msgNegated ''region'' ''EU'' ''EU''])
   \<and> matchSegment (typedCombo [(''region'', [''!EU''])]) (attrs(''region'' \<mapsto> ''US'')) rs
     = Inr (True, rs)
   \<and> matchSegment (typedCombo [(''region'', [''US'', ''!EU''])]) (attrs(''region'' \<mapsto> ''US'')) rs
     = Inr (True, rs)
   \<and> matchSegment (typedCombo [(''region'', [''US'', ''!EU''])]) (attrs(''region'' \<mapsto> ''EU'')) rs
     = Inr (False, rs @ [msgNegated ''region'' ''EU'' ''EU''])"
  by (simp add: matchSegment_def typedCombo_def getProperty_def startsWith_def slice_def)

text \<open>
  A key mapped to an empty token list cannot be satisfied: when the user has a
  non-empty value for the key, the segment fails with the entry that no value matches.
\<close>

theorem empty_token_list_unsatisfiable:
  assumes "attrs k = Some u" and "u \<noteq> []"
  shows "matchSegment (typedCombo ((k, []) # rest)) attrs rs
     = Inr (False, rs @ [msgNoMatching k])"
  using assms by (simp add: matchSegment_def typedCombo_def getProperty_own)

theorem empty_token_list_unsatisfiable_witness:
  "matchSegment (typedCombo [(''plan'', []), (''region'', [''US''])])
     [''plan'' \<mapsto> ''free'', ''region'' \<mapsto> ''US''] []
     = Inr (False, [msgNoMatching ''plan''])"
  using empty_token_list_unsatisfiable
          [of "[''plan'' \<mapsto> ''free'', ''region'' \<mapsto> ''US'']" "''plan''" "''free''"
              "[(''region'', [''US''])]" "[]"]
  by simp

section \<open>The feature index\<close>

lemma indexFeatures_store:
  "indexFeatures grp m = fold store (map (\<lambda>feature. (feature, group_id grp)) (features grp)) m"
  by (simp add: indexFeatures_def fold_map comp_def store_def [abs_def])

lemma fold_indexFeatures:
  "fold indexFeatures gs m =
     fold store (concat (map (\<lambda>grp. map (\<lambda>feature. (feature, group_id grp)) (features grp)) gs)) m"
  by (induction gs arbitrary: m) (simp_all add: indexFeatures_store)

lemma featureMap_entries:
  "featureMap (newFeatureManager config uid attrs) = fold store (configEntries config) Map.empty"
  by (simp add: newFeatureManager_def configEntries_def fold_indexFeatures)

lemma fold_store_other:
  "featureId \<notin> (\<lambda>e. feat_id (fst e)) ` set es \<Longrightarrow> fold store es m featureId = m featureId"
  by (induction es arbitrary: m) (auto simp: store_def)

lemma fold_store_last:
  "feat_id f \<notin> (\<lambda>e. feat_id (fst e)) ` set post \<Longrightarrow>
     fold store (pre @ (f, gid) # post) m (feat_id f) = Some (f, gid)"
  by (simp add: fold_store_other store_def)

text \<open>
  C10. When several features of a configuration have the same id, in one group or in
  several, the index keeps the one that comes last in document order: if no feature after
  an occurrence has its id, the index maps the id to that occurrence and to the id of its
  group, and every evaluation of the id is the evaluation of that feature with that group
  id. The constructor is total, and the evaluation does not fail with the error of an
  unknown feature.
\<close>

theorem duplicate_feature_id_last_wins:
  assumes "configEntries config = pre @ (f, gid) # post"
    and "feat_id f \<notin> (\<lambda>e. feat_id (fst e)) ` set post"
  shows "featureMap (newFeatureManager config uid attrs) (feat_id f) = Some (f, gid)
     \<and> getFeatureValue rt (newFeatureManager config uid attrs) (feat_id f)
         = evaluateEntry rt (newFeatureManager config uid attrs) f gid
     \<and> getFeatureValue rt (newFeatureManager config uid attrs) (feat_id f)
         \<noteq> Inl (Error (msgNotFound (feat_id f)))"
proof -
  have "featureMap (newFeatureManager config uid attrs) (feat_id f)
          = fold store (pre @ (f, gid) # post) Map.empty (feat_id f)"
    by (simp only: featureMap_entries assms(1))
  also have "\<dots> = Some (f, gid)"
    by (rule fold_store_last [OF assms(2)])
  finally have "featureMap (newFeatureManager config uid attrs) (feat_id f) = Some (f, gid)" .
  then show ?thesis by (simp add: getFeatureValue_def evaluateEntry_no_Error)
qed

theorem duplicate_feature_id_last_wins_witness:
  "configEntries duplicateConfig
     = [(plainFeature, ''g1'')] @ (plainFeature\<lparr> feat_value := ''on'' \<rparr>, ''g2'') # []
   \<and> featureMap (newFeatureManager duplicateConfig ''alice'' Map.empty) ''f0''
       = Some (plainFeature\<lparr> feat_value := ''on'' \<rparr>, ''g2'')
   \<and> getFeatureValue sampleRuntime (newFeatureManager duplicateConfig ''alice'' Map.empty) ''f0''
       = Inr \<lparr> result_value = ''on'',
               reasoning = [''No segments matched. Using default value.'',
                            ''No feature-level rollout applied.'',
                            ''Final value: on''] \<rparr>"
  using duplicate_feature_id_last_wins
          [of duplicateConfig "[(plainFeature, ''g1'')]" "plainFeature\<lparr> feat_value := ''on'' \<rparr>"
              "''g2''" "[]" "''alice''" Map.empty sampleRuntime]
  by (simp add: configEntries_def duplicateConfig_def plainFeature_def evaluateEntry_def
        sampleRuntime_def newFeatureManager_def indexFeatures_def Let_def)

text \<open>
  C6. Evaluating a feature id that the index does not hold fails with the error
  \<open>Feature with id "..." not found.\<close>: the result is the error alone, neither a default
  value nor a trace. That is so for every manager whose index lacks the id, and in
  particular for the manager built from a configuration none of whose features has the id.
\<close>

theorem unknown_feature_fails:
  "(featureMap this featureId = None \<longrightarrow>
      getFeatureValue rt this featureId = Inl (Error (msgNotFound featureId)))
   \<and> (featureId \<notin> (\<lambda>e. feat_id (fst e)) ` set (configEntries config) \<longrightarrow>
      getFeatureValue rt (newFeatureManager config uid attrs) featureId
        = Inl (Error (msgNotFound featureId)))"
  by (simp add: getFeatureValue_def featureMap_entries fold_store_other)

theorem unknown_feature_fails_witness:
  \<open>getFeatureValue sampleRuntime (newFeatureManager duplicateConfig ''alice'' Map.empty) ''f9''
     = Inl (Error ''Feature with id "f9" not found.'')\<close>
  using unknown_feature_fails
          [of "newFeatureManager duplicateConfig ''alice'' Map.empty" "''f9''" sampleRuntime
              duplicateConfig "''alice''" Map.empty]
  by (simp add: configEntries_def duplicateConfig_def plainFeature_def msgNotFound_def)

section \<open>The evaluation orchestrator\<close>




subsection \<open>The loop over the segments\<close>

lemma segmentLoop_no_match:
  assumes "matchSegment (combo s) (userAttributes this) [] = Inr (False, tr)"
  shows "segmentLoop rt this gid (s # rest) rs
     = segmentLoop rt this gid rest
         (rs @ tr @ [''Segment did not match: '' @ JSON_stringify rt (combo s)])"
  using assms matchSegment_trace [of "combo s" "userAttributes this" rs] by simp

lemma segmentLoop_skip:
  assumes "\<forall>t \<in> set pre. \<exists>tr. matchSegment (combo t) (userAttributes this) [] = Inr (False, tr)"
  shows "\<exists>rs'. \<forall>rest. segmentLoop rt this gid (pre @ rest) rs = segmentLoop rt this gid rest rs'"
  using assms
proof (induction pre arbitrary: rs)
  case Nil
  show ?case by (rule exI [of _ rs]) simp
next
  case (Cons t pre)
  then obtain tr where t: "matchSegment (combo t) (userAttributes this) [] = Inr (False, tr)"
    by auto
  from Cons obtain rs' where
    "\<forall>rest. segmentLoop rt this gid (pre @ rest)
               (rs @ tr @ [''Segment did not match: '' @ JSON_stringify rt (combo t)])
             = segmentLoop rt this gid rest rs'"
    by fastforce
  then have "\<forall>rest. segmentLoop rt this gid ((t # pre) @ rest) rs
                   = segmentLoop rt this gid rest rs'"
    by (simp add: segmentLoop_no_match [OF t] del: segmentLoop.simps)
  then show ?case ..
qed

lemma segmentLoop_raise:
  assumes "matchSegment (combo s) (userAttributes this) [] = Inl e"
  shows "segmentLoop rt this gid (s # rest) rs = Inl e"
  using assms matchSegment_trace [of "combo s" "userAttributes this" rs] by simp







subsection \<open>Malformed match data\<close>

text \<open>
  C7, as the code has it. Malformed match data is not caught. For a segment whose combo
  is absent, \<open>matchSegment\<close> raises a \<open>TypeError\<close>; so it does for a combo whose first key
  is mapped to a value that is neither a list nor a string (null, a boolean, a number or
  an object) when the user has a non-empty value for that key. The error leaves the
  evaluation: when the segments declared before such a segment do not match, the
  evaluation of the feature fails with the error, and neither a later segment nor the
  feature's default is evaluated.
\<close>

theorem malformed_segment_raises:
  "matchSegment None attrs rs = Inl TypeError
   \<and> (attrs k = Some u \<and> u \<noteq> [] \<and> (\<forall>xs. v \<noteq> JArr xs) \<and> (\<forall>str. v \<noteq> JStr str) \<longrightarrow>
        matchSegment (Some ((k, v) # rest)) attrs rs = Inl TypeError)
   \<and> (featureMap this featureId = Some (feature, gid) \<and> segments feature = pre @ s # post
        \<and> (\<forall>t \<in> set pre. \<exists>tr. matchSegment (combo t) (userAttributes this) [] = Inr (False, tr))
        \<and> matchSegment (combo s) (userAttributes this) [] = Inl e \<longrightarrow>
        getFeatureValue rt this featureId = Inl e)"
proof (intro conjI impI)
  show "matchSegment None attrs rs = Inl TypeError"
    by (simp add: matchSegment_def)
next
  assume "attrs k = Some u \<and> u \<noteq> [] \<and> (\<forall>xs. v \<noteq> JArr xs) \<and> (\<forall>str. v \<noteq> JStr str)"
  then show "matchSegment (Some ((k, v) # rest)) attrs rs = Inl TypeError"
    by (cases v) (simp_all add: matchSegment_def getProperty_own)
next
  assume a: "featureMap this featureId = Some (feature, gid) \<and> segments feature = pre @ s # post
        \<and> (\<forall>t \<in> set pre. \<exists>tr. matchSegment (combo t) (userAttributes this) [] = Inr (False, tr))
        \<and> matchSegment (combo s) (userAttributes this) [] = Inl e"
  then obtain rs' where
    "\<forall>rest. segmentLoop rt this gid (pre @ rest) [] = segmentLoop rt this gid rest rs'"
    using segmentLoop_skip [of pre this rt gid "[]"] by blast
  with a have "segmentLoop rt this gid (segments feature) [] = Inl e"
    by (simp add: segmentLoop_raise del: segmentLoop.simps)
  with a show "getFeatureValue rt this featureId = Inl e"
    by (simp add: getFeatureValue_def evaluateEntry_def)
qed

theorem malformed_segment_raises_witness:
  "matchSegment None [''region'' \<mapsto> ''US''] [] = Inl TypeError
   \<and> matchSegment (Some [(''region'', JNum 5)]) [''region'' \<mapsto> ''US''] [] = Inl TypeError
   \<and> getFeatureValue sampleRuntime
        (sampleManager (tieredFeature\<lparr> segments := [proSegment, brokenSegment, everyoneSegment] \<rparr>))
        ''f1'' = Inl TypeError"
  using malformed_segment_raises
          [of "[''region'' \<mapsto> ''US'']" "[]" "''region''" "''US''" "JNum 5" "[]"
              "sampleManager (tieredFeature\<lparr> segments := [proSegment, brokenSegment, everyoneSegment] \<rparr>)"
              "''f1''" "tieredFeature\<lparr> segments := [proSegment, brokenSegment, everyoneSegment] \<rparr>"
              "''g1''" "[proSegment]" brokenSegment "[everyoneSegment]" TypeError sampleRuntime]
  by (simp add: sampleManager_def tieredFeature_def proSegment_def brokenSegment_def
        matchSegment_def getProperty_def startsWith_def)

text \<open>
  C7 as stated (a malformed segment does not match, nothing is raised, and the evaluation
  goes on) fails: an absent combo and a key mapped to a number raise a \<open>TypeError\<close>, a
  key mapped to the string \<open>!EU\<close> is read character by character and matches the region
  \<open>EU\<close>, and a feature whose first segment has no combo fails with the \<open>TypeError\<close>
  although its second segment matches every user.
\<close>

theorem malformed_segment_counterexample:
  "matchSegment (combo brokenSegment) [''region'' \<mapsto> ''US''] [] = Inl TypeError
   \<and> matchSegment (Some [(''region'', JNum 5)]) [''region'' \<mapsto> ''US''] [] = Inl TypeError
   \<and> matchSegment (Some [(''region'', JStr ''!EU'')]) [''region'' \<mapsto> ''EU''] [] = Inr (True, [])
   \<and> getFeatureValue sampleRuntime
        (sampleManager (tieredFeature\<lparr> segments := [brokenSegment, everyoneSegment] \<rparr>))
        ''f1'' = Inl TypeError"
  by (simp add: sampleManager_def tieredFeature_def brokenSegment_def everyoneSegment_def
        matchSegment_def getProperty_def startsWith_def slice_def getFeatureValue_def
        evaluateEntry_def)

end
